theory Spec2Isabelle
  imports Complex_Main "HOL-Library.Multiset"
begin

section \<open>Data model\<close>

text \<open>
  A value of Go's \<^verbatim>\<open>any\<close>, as far as this adapter meets one: what
  \<^verbatim>\<open>encoding/json\<close> decodes (nil, bool, float64, string, \<^verbatim>\<open>[]any\<close>,
  \<^verbatim>\<open>map[string]any\<close>) and what \<^verbatim>\<open>buildQuery\<close> itself stores (an int,
  a \<^verbatim>\<open>[]string\<close>, a slice of maps). A float64 that JSON can carry is finite, hence a
  rational. A nested map literal is listed with its keys in the order the source writes
  them; every map the code builds that way has its keys determined by its content.
\<close>

datatype any =
    Null
  | Boolean bool
  | Integer int
  | Float64 rat
  | Str string
  | Strs "string list"
  | Slice "any list"
  | Object "(string \<times> any) list"

text \<open>
  Package \<^verbatim>\<open>time\<close> is not part of the repository: the operations the adapter calls on
  a \<^verbatim>\<open>time.Time\<close> are parameters. \<open>Format\<close> is \<^verbatim>\<open>t.Format(time.RFC3339)\<close>,
  \<open>Parse\<close> is \<^verbatim>\<open>time.Parse(time.RFC3339, s)\<close> with \<open>None\<close> for an error, and
  \<open>ZeroTime\<close> is the zero value of \<^verbatim>\<open>time.Time\<close>.
\<close>

record 't time_ops =
  IsZero :: "'t \<Rightarrow> bool"
  Format :: "'t \<Rightarrow> string"
  Parse :: "string \<Rightarrow> 't option"
  ZeroTime :: "'t"

text \<open>
  \<^verbatim>\<open>schema.LogQuery\<close> and its parts (package opsorch-core), with the fields the adapter
  reads. \<open>Expression\<close> is a pointer, \<open>None\<close> when nil. \<open>Limit\<close> is a Go \<^verbatim>\<open>int\<close>
  that is only compared with zero and copied, so no wrap-around can occur.
\<close>

record LogFilter =
  Field :: string
  Operator :: string
  Value :: string

record LogExpression =
  Search :: string
  SeverityIn :: "string list"
  Filters :: "LogFilter list"

record QueryScope =
  Service :: string
  Environment :: string
  Team :: string

record 't LogQuery =
  Start :: "'t"
  End :: "'t"
  Expression :: "LogExpression option"
  Scope :: QueryScope
  Limit :: int
  Metadata :: "string \<rightharpoonup> any"

text \<open>
  A \<^verbatim>\<open>for key, value := range m\<close> loop visits every entry of the map \<open>m\<close> exactly
  once, in an order the Go runtime chooses afresh for each loop. \<open>range_order m kvs\<close>
  says that \<open>kvs\<close> is such a visiting sequence for \<open>m\<close>. Each function with a range
  loop takes the sequence its loop follows as an argument.
\<close>

definition range_order :: "(string \<rightharpoonup> 'v) \<Rightarrow> (string \<times> 'v) list \<Rightarrow> bool" where
  "range_order m kvs \<longleftrightarrow> distinct (map fst kvs) \<and> map_of kvs = m"

section \<open>Query builder\<close>

text \<open>\<^verbatim>\<open>buildFilterClause\<close>: the switch on the operator; \<open>None\<close> is the nil map.\<close>

definition buildFilterClause :: "LogFilter \<Rightarrow> any option" where
  "buildFilterClause f =
     (if Operator f = ''='' then
        Some (Object [(''term'', Object [(Field f, Str (Value f))])])
      else if Operator f = ''!='' then
        Some (Object [(''bool'', Object [(''must_not'',
                Object [(''term'', Object [(Field f, Str (Value f))])])])])
      else if Operator f = ''contains'' then
        Some (Object [(''wildcard'', Object [(Field f,
                Object [(''value'', Str (''*'' @ Value f @ ''*''))])])])
      else if Operator f = ''regex'' then
        Some (Object [(''regexp'', Object [(Field f,
                Object [(''value'', Str (Value f))])])])
      else None)"

text \<open>
  \<^verbatim>\<open>buildQuery\<close> appends to the slice \<^verbatim>\<open>mustClauses\<close> block by block. Each block
  below takes the slice as it stands and returns it as the block leaves it.

  The time range block: the inner map of \<^verbatim>\<open>rangeClause\<close> starts empty and receives
  \<open>gte\<close> and \<open>lte\<close>.
\<close>

definition add_time_range :: "'t time_ops \<Rightarrow> 't LogQuery \<Rightarrow> any list \<Rightarrow> any list" where
  "add_time_range T query mc =
     (if \<not> IsZero T (Start query) \<or> \<not> IsZero T (End query) then
        (let ts = [];
             ts = (if \<not> IsZero T (Start query)
                   then ts @ [(''gte'', Str (Format T (Start query)))] else ts);
             ts = (if \<not> IsZero T (End query)
                   then ts @ [(''lte'', Str (Format T (End query)))] else ts)
         in mc @ [Object [(''range'', Object [(''@timestamp'', Object ts)])]])
      else mc)"

text \<open>The loop over \<^verbatim>\<open>query.Expression.Filters\<close>: a clause is appended unless it is nil.\<close>

definition add_filters :: "LogFilter list \<Rightarrow> any list \<Rightarrow> any list" where
  "add_filters fs mc =
     fold (\<lambda>f mc. case buildFilterClause f of None \<Rightarrow> mc | Some clause \<Rightarrow> mc @ [clause]) fs mc"

definition add_expression :: "'t LogQuery \<Rightarrow> any list \<Rightarrow> any list" where
  "add_expression query mc =
     (case Expression query of
        None \<Rightarrow> mc
      | Some e \<Rightarrow>
          (let mc = (if Search e \<noteq> ''''
                     then mc @ [Object [(''query_string'', Object [(''query'', Str (Search e))])]]
                     else mc);
               mc = (if length (SeverityIn e) > 0
                     then mc @ [Object [(''terms'', Object [(''severity'', Strs (SeverityIn e))])]]
                     else mc)
           in add_filters (Filters e) mc))"

definition add_scope :: "'t LogQuery \<Rightarrow> any list \<Rightarrow> any list" where
  "add_scope query mc =
     (let mc = (if QueryScope.Service (Scope query) \<noteq> ''''
                then mc @ [Object [(''term'',
                       Object [(''service'', Str (QueryScope.Service (Scope query)))])]]
                else mc);
          mc = (if Environment (Scope query) \<noteq> ''''
                then mc @ [Object [(''term'',
                       Object [(''environment'', Str (Environment (Scope query)))])]]
                else mc);
          mc = (if Team (Scope query) \<noteq> ''''
                then mc @ [Object [(''term'', Object [(''team'', Str (Team (Scope query)))])]]
                else mc)
      in mc)"

text \<open>
  The range loop over \<^verbatim>\<open>query.Metadata\<close>; \<open>kvs\<close> is the sequence in which this run
  of the loop visits the entries.
\<close>

definition add_metadata :: "(string \<times> any) list \<Rightarrow> any list \<Rightarrow> any list" where
  "add_metadata kvs mc =
     fold (\<lambda>(key, v) mc. mc @ [Object [(''term'', Object [(key, v)])]]) kvs mc"

definition buildQuery :: "'t time_ops \<Rightarrow> (string \<times> any) list \<Rightarrow> 't LogQuery \<Rightarrow> any" where
  "buildQuery T kvs query =
     (let mustClauses = [];
          mustClauses = add_time_range T query mustClauses;
          mustClauses = add_expression query mustClauses;
          mustClauses = add_scope query mustClauses;
          mustClauses = add_metadata kvs mustClauses;
          esQuery = [
            (''query'', Object [(''bool'', Object [(''must'', Slice mustClauses)])]),
            (''sort'', Slice [Object [(''@timestamp'', Object [(''order'', Str ''desc'')])]])];
          esQuery = (if Limit query > 0
                     then esQuery @ [(''size'', Integer (Limit query))]
                     else esQuery @ [(''size'', Integer 1000)])
      in Object esQuery)"

text \<open>Reading a key of a document the code has built.\<close>

fun member :: "any \<Rightarrow> string \<Rightarrow> any option" where
  "member (Object kvs) k = map_of kvs k"
| "member _ k = None"

text \<open>The clauses of a built query document: the slice under \<open>query.bool.must\<close>.\<close>

definition must_of :: "any \<Rightarrow> any list" where
  "must_of doc =
     (case member doc ''query'' of
        Some q \<Rightarrow>
          (case member q ''bool'' of
             Some b \<Rightarrow> (case member b ''must'' of Some (Slice cs) \<Rightarrow> cs | _ \<Rightarrow> [])
           | None \<Rightarrow> [])
      | None \<Rightarrow> [])"

subsection \<open>The clause order in the words of the specification\<close>

text \<open>
  The six groups of clauses as the specification lists them. A filter contributes the
  clause \<open>buildFilterClause\<close> translates it to, and nothing when its operator has no
  translation.
\<close>

definition spec_time_range :: "'t time_ops \<Rightarrow> 't LogQuery \<Rightarrow> any list" where
  "spec_time_range T query =
     (if IsZero T (Start query) \<and> IsZero T (End query) then []
      else [Object [(''range'', Object [(''@timestamp'', Object
              ((if IsZero T (Start query) then []
                else [(''gte'', Str (Format T (Start query)))]) @
               (if IsZero T (End query) then []
                else [(''lte'', Str (Format T (End query)))])))])]])"

definition spec_free_text :: "'t LogQuery \<Rightarrow> any list" where
  "spec_free_text query =
     (case Expression query of
        None \<Rightarrow> []
      | Some e \<Rightarrow> if Search e = '''' then []
                  else [Object [(''query_string'', Object [(''query'', Str (Search e))])]])"

definition spec_severity :: "'t LogQuery \<Rightarrow> any list" where
  "spec_severity query =
     (case Expression query of
        None \<Rightarrow> []
      | Some e \<Rightarrow> if SeverityIn e = [] then []
                  else [Object [(''terms'', Object [(''severity'', Strs (SeverityIn e))])]])"

definition spec_term :: "string \<Rightarrow> any \<Rightarrow> any" where
  "spec_term k v = Object [(''term'', Object [(k, v)])]"

text \<open>The operators that have a translation.\<close>

definition recognised :: "string \<Rightarrow> bool" where
  "recognised op \<longleftrightarrow> op = ''='' \<or> op = ''!='' \<or> op = ''contains'' \<or> op = ''regex''"

text \<open>
  The translation of a filter by its operator: an equality test, a negated equality
  test, a substring wildcard match on \<open>*value*\<close>, a regular-expression match.
\<close>

definition spec_filter_clause :: "LogFilter \<Rightarrow> any" where
  "spec_filter_clause f =
     (if Operator f = ''='' then spec_term (Field f) (Str (Value f))
      else if Operator f = ''!='' then
        Object [(''bool'', Object [(''must_not'', spec_term (Field f) (Str (Value f)))])]
      else if Operator f = ''contains'' then
        Object [(''wildcard'', Object [(Field f, Object [(''value'', Str (''*'' @ Value f @ ''*''))])])]
      else
        Object [(''regexp'', Object [(Field f, Object [(''value'', Str (Value f))])])])"

text \<open>One clause for each filter whose operator has a translation, in input order.\<close>

definition spec_filters :: "'t LogQuery \<Rightarrow> any list" where
  "spec_filters query =
     (case Expression query of
        None \<Rightarrow> []
      | Some e \<Rightarrow> map spec_filter_clause (filter (\<lambda>f. recognised (Operator f)) (Filters e)))"

definition spec_scope :: "'t LogQuery \<Rightarrow> any list" where
  "spec_scope query =
     map (\<lambda>(k, v). spec_term k (Str v))
       (filter (\<lambda>(k, v). v \<noteq> '''')
          [(''service'', QueryScope.Service (Scope query)),
           (''environment'', Environment (Scope query)),
           (''team'', Team (Scope query))])"

definition spec_metadata :: "(string \<times> any) list \<Rightarrow> any list" where
  "spec_metadata kvs = map (\<lambda>(k, v). spec_term k v) kvs"

text \<open>The clauses of the first five groups, and all six.\<close>

definition spec_fixed :: "'t time_ops \<Rightarrow> 't LogQuery \<Rightarrow> any list" where
  "spec_fixed T query =
     spec_time_range T query @ spec_free_text query @ spec_severity query @
     spec_filters query @ spec_scope query"

definition spec_clauses :: "'t time_ops \<Rightarrow> (string \<times> any) list \<Rightarrow> 't LogQuery \<Rightarrow> any list" where
  "spec_clauses T kvs query = spec_fixed T query @ spec_metadata kvs"

section \<open>Result normalizer\<close>

text \<open>
  \<^verbatim>\<open>esHit\<close>, and \<^verbatim>\<open>schema.LogEntry\<close> (package opsorch-core) with the fields the
  adapter writes.
\<close>

record esHit =
  Index :: string
  ID :: string
  Score :: rat
  Source :: "string \<rightharpoonup> any"

record 't LogEntry =
  Timestamp :: "'t"
  Message :: string
  Severity :: string
  Service :: string
  Labels :: "string \<rightharpoonup> string"
  Fields :: "string \<rightharpoonup> any"
  Metadata :: "string \<rightharpoonup> any"

text \<open>
  The type assertion \<^verbatim>\<open>v, ok := m[key].(string)\<close>: \<open>Some v\<close> when the key is present
  with a string value, \<open>None\<close> (\<^verbatim>\<open>ok\<close> false) for a missing key or any other value.
\<close>

fun as_string :: "any option \<Rightarrow> string option" where
  "as_string (Some (Str s)) = Some s"
| "as_string _ = None"

text \<open>The test under which both range loops of \<^verbatim>\<open>normalizeHit\<close> skip a key.\<close>

definition skipped :: "string \<Rightarrow> bool" where
  "skipped key \<longleftrightarrow>
     key = ''@timestamp'' \<or> key = ''message'' \<or> key = ''severity'' \<or> key = ''level'' \<or>
     key = ''service''"

text \<open>
  \<^verbatim>\<open>normalizeHit\<close>. \<open>kvs1\<close> and \<open>kvs2\<close> are the sequences in which the labels loop
  and the fields loop visit \<^verbatim>\<open>hit.Source\<close>.
\<close>

definition normalizeHit ::
  "'t time_ops \<Rightarrow> (string \<times> any) list \<Rightarrow> (string \<times> any) list \<Rightarrow> esHit \<Rightarrow> 't LogEntry" where
  "normalizeHit T kvs1 kvs2 hit =
     (let source = Source hit;
          entry = \<lparr>Timestamp = ZeroTime T, Message = '''', Severity = '''',
                   LogEntry.Service = '''', Labels = Map.empty, Fields = Map.empty,
                   LogEntry.Metadata = [''_index'' \<mapsto> Str (Index hit), ''_id'' \<mapsto> Str (ID hit),
                                        ''_score'' \<mapsto> Float64 (Score hit)]\<rparr>;
          entry = (case as_string (source ''@timestamp'') of
                     Some ts \<Rightarrow> (case Parse T ts of
                                   Some parsed \<Rightarrow> entry\<lparr>Timestamp := parsed\<rparr>
                                 | None \<Rightarrow> entry)
                   | None \<Rightarrow> entry);
          entry = (case as_string (source ''message'') of
                     Some msg \<Rightarrow> entry\<lparr>Message := msg\<rparr>
                   | None \<Rightarrow> entry);
          entry = (case as_string (source ''severity'') of
                     Some sev \<Rightarrow> entry\<lparr>Severity := sev\<rparr>
                   | None \<Rightarrow> (case as_string (source ''level'') of
                                Some level \<Rightarrow> entry\<lparr>Severity := level\<rparr>
                              | None \<Rightarrow> entry));
          entry = (case as_string (source ''service'') of
                     Some svc \<Rightarrow> entry\<lparr>LogEntry.Service := svc\<rparr>
                   | None \<Rightarrow> entry);
          entry = entry\<lparr>Labels :=
                    fold (\<lambda>(key, v) labels.
                            if skipped key then labels
                            else (case as_string (Some v) of
                                    Some strVal \<Rightarrow> labels(key \<mapsto> strVal)
                                  | None \<Rightarrow> labels))
                         kvs1 Map.empty\<rparr>;
          entry = entry\<lparr>Fields :=
                    fold (\<lambda>(key, v) fields. if skipped key then fields else fields(key \<mapsto> v))
                         kvs2 Map.empty\<rparr>
      in entry)"

section \<open>Configuration and provider construction\<close>

record Config =
  Addresses :: "string list"
  Username :: string
  Password :: string
  APIKey :: string
  CloudID :: string
  IndexPattern :: string

text \<open>The type assertion \<^verbatim>\<open>addrs, ok := cfg["addresses"].([]any)\<close>.\<close>

fun as_slice :: "any option \<Rightarrow> any list option" where
  "as_slice (Some (Slice xs)) = Some xs"
| "as_slice _ = None"

text \<open>\<^verbatim>\<open>parseConfig\<close>: each field keeps its zero value unless its assertion succeeds.\<close>

definition parseConfig :: "(string \<rightharpoonup> any) \<Rightarrow> Config" where
  "parseConfig cfg =
     (let out = \<lparr>Addresses = [], Username = '''', Password = '''', APIKey = '''', CloudID = '''',
                 IndexPattern = ''logs-*''\<rparr>;
          out = (case as_slice (cfg ''addresses'') of
                   Some addrs \<Rightarrow>
                     fold (\<lambda>addr out. case as_string (Some addr) of
                                         Some strAddr \<Rightarrow> out\<lparr>Addresses := Addresses out @ [strAddr]\<rparr>
                                       | None \<Rightarrow> out)
                          addrs out
                 | None \<Rightarrow> out);
          out = (case as_string (cfg ''username'') of Some v \<Rightarrow> out\<lparr>Username := v\<rparr> | None \<Rightarrow> out);
          out = (case as_string (cfg ''password'') of Some v \<Rightarrow> out\<lparr>Password := v\<rparr> | None \<Rightarrow> out);
          out = (case as_string (cfg ''apiKey'') of Some v \<Rightarrow> out\<lparr>APIKey := v\<rparr> | None \<Rightarrow> out);
          out = (case as_string (cfg ''cloudID'') of Some v \<Rightarrow> out\<lparr>CloudID := v\<rparr> | None \<Rightarrow> out);
          out = (case as_string (cfg ''indexPattern'') of
                   Some v \<Rightarrow> if v \<noteq> '''' then out\<lparr>IndexPattern := v\<rparr> else out
                 | None \<Rightarrow> out)
      in out)"

text \<open>
  The errors the adapter and its transport loop create, one constructor for each place
  that creates one; the argument is the message of the wrapped or formatted error.
  \<open>errorString\<close> is the \<^verbatim>\<open>Error()\<close> method.
\<close>

datatype error =
    ConfigError
  | CreateClientError string
  | ConnectError string
  | QueryFailed string
  | BackendError string
  | ParseResponseError string
  | DecodeError string
  | UnknownMethod string

fun errorString :: "error \<Rightarrow> string" where
  "errorString ConfigError = ''either 'addresses' or 'cloudID' must be provided''"
| "errorString (CreateClientError e) = ''failed to create Elasticsearch client: '' @ e"
| "errorString (ConnectError e) = ''failed to connect to Elasticsearch: '' @ e"
| "errorString (QueryFailed e) = ''elasticsearch query failed: '' @ e"
| "errorString (BackendError s) = ''elasticsearch returned error: '' @ s"
| "errorString (ParseResponseError e) = ''failed to parse response: '' @ e"
| "errorString (DecodeError e) = e"
| "errorString (UnknownMethod m) = ''unknown method: '' @ m"

text \<open>
  \<^verbatim>\<open>elasticsearch.Config\<close> with the fields \<^verbatim>\<open>New\<close> sets, and what a search through
  the client comes to in \<^verbatim>\<open>Query\<close>: the call fails, the response is an error
  response (with its rendering), its body does not decode, or it decodes to hits.
\<close>

record esConfig =
  esAddresses :: "string list"
  esUsername :: string
  esPassword :: string
  esAPIKey :: string
  esCloudID :: string

datatype search_outcome =
    SearchFailed string
  | ErrorResponse string
  | UndecodableBody string
  | SearchHits "esHit list"

text \<open>
  What lies outside the repository, as parameters. \<open>'c\<close> is the client handle and \<open>'w\<close>
  the state of everything outside the process (the backend, the network, the runtime's
  choice of map iteration orders); each call that touches it returns it updated.
  \<open>NewClient\<close> is \<^verbatim>\<open>elasticsearch.NewClient\<close>, \<open>Ping\<close> is \<^verbatim>\<open>client.Ping\<close> with
  \<open>Some\<close> message for an error, \<open>ClientSearch\<close> is \<^verbatim>\<open>client.Search\<close> on an index
  pattern and a query document together with the decoding of its response, \<open>RangeLoop\<close>
  is the runtime choosing the visiting sequence of one range loop over a map, and
  \<open>UnmarshalQuery\<close> is \<^verbatim>\<open>json.Unmarshal\<close> of a payload into a \<^verbatim>\<open>schema.LogQuery\<close>.
\<close>

record ('c, 'w, 't) env =
  TimePkg :: "'t time_ops"
  NewClient :: "esConfig \<Rightarrow> 'w \<Rightarrow> (string + 'c) \<times> 'w"
  Ping :: "'c \<Rightarrow> 'w \<Rightarrow> string option \<times> 'w"
  ClientSearch :: "'c \<Rightarrow> string \<Rightarrow> any \<Rightarrow> 'w \<Rightarrow> search_outcome \<times> 'w"
  RangeLoop :: "(string \<rightharpoonup> any) \<Rightarrow> 'w \<Rightarrow> (string \<times> any) list \<times> 'w"
  UnmarshalQuery :: "string \<Rightarrow> string + 't LogQuery"

record 'c ElasticProvider =
  cfg :: Config
  client :: 'c

text \<open>The client configuration \<^verbatim>\<open>New\<close> builds from the parsed configuration.\<close>

definition client_config :: "Config \<Rightarrow> esConfig" where
  "client_config parsed =
     (let esCfg = \<lparr>esAddresses = [], esUsername = '''', esPassword = '''', esAPIKey = '''',
                   esCloudID = ''''\<rparr>;
          esCfg = (if CloudID parsed \<noteq> '''' then esCfg\<lparr>esCloudID := CloudID parsed\<rparr>
                   else esCfg\<lparr>esAddresses := Addresses parsed\<rparr>);
          esCfg = (if APIKey parsed \<noteq> '''' then esCfg\<lparr>esAPIKey := APIKey parsed\<rparr>
                   else if Username parsed \<noteq> '''' \<or> Password parsed \<noteq> ''''
                   then esCfg\<lparr>esUsername := Username parsed, esPassword := Password parsed\<rparr>
                   else esCfg)
      in esCfg)"

definition New ::
  "('c, 'w, 't) env \<Rightarrow> (string \<rightharpoonup> any) \<Rightarrow> 'w \<Rightarrow> (error + 'c ElasticProvider) \<times> 'w" where
  "New E config w =
     (let parsed = parseConfig config in
      if length (Addresses parsed) = 0 \<and> CloudID parsed = '''' then (Inl ConfigError, w)
      else
        (case NewClient E (client_config parsed) w of
           (Inl err, w1) \<Rightarrow> (Inl (CreateClientError err), w1)
         | (Inr cl, w1) \<Rightarrow>
             (case Ping E cl w1 of
                (Some err, w2) \<Rightarrow> (Inl (ConnectError err), w2)
              | (None, w2) \<Rightarrow> (Inr \<lparr>cfg = parsed, client = cl\<rparr>, w2))))"

text \<open>The loop of \<^verbatim>\<open>Query\<close> over the hits; each hit takes two range loops.\<close>

fun normalizeHits ::
  "('c, 'w, 't) env \<Rightarrow> esHit list \<Rightarrow> 'w \<Rightarrow> 't LogEntry list \<times> 'w" where
  "normalizeHits E [] w = ([], w)"
| "normalizeHits E (hit # hits) w =
     (case RangeLoop E (Source hit) w of
        (kvs1, w1) \<Rightarrow>
          (case RangeLoop E (Source hit) w1 of
             (kvs2, w2) \<Rightarrow>
               (case normalizeHits E hits w2 of
                  (entries, w3) \<Rightarrow> (normalizeHit (TimePkg E) kvs1 kvs2 hit # entries, w3))))"

text \<open>
  \<^verbatim>\<open>Query\<close>. \<^verbatim>\<open>json.Marshal\<close> of the built document cannot fail: every value of
  type \<open>any\<close> has a JSON encoding.
\<close>

definition Query ::
  "('c, 'w, 't) env \<Rightarrow> 'c ElasticProvider \<Rightarrow> 't LogQuery \<Rightarrow> 'w
     \<Rightarrow> (error + 't LogEntry list) \<times> 'w" where
  "Query E p query w =
     (case RangeLoop E (LogQuery.Metadata query) w of
        (kvs, w1) \<Rightarrow>
          (case ClientSearch E (client p) (IndexPattern (cfg p))
                  (buildQuery (TimePkg E) kvs query) w1 of
             (SearchFailed err, w2) \<Rightarrow> (Inl (QueryFailed err), w2)
           | (ErrorResponse s, w2) \<Rightarrow> (Inl (BackendError s), w2)
           | (UndecodableBody err, w2) \<Rightarrow> (Inl (ParseResponseError err), w2)
           | (SearchHits hits, w2) \<Rightarrow>
               (case normalizeHits E hits w2 of (entries, w3) \<Rightarrow> (Inr entries, w3))))"

section \<open>Transport loop\<close>

record rpcRequest =
  Method :: string
  Config :: "string \<rightharpoonup> any"
  Payload :: string

record 't rpcResponse =
  Result :: "'t LogEntry list option"
  Error :: string

text \<open>
  What \<^verbatim>\<open>dec.Decode(&req)\<close> returns for one record of standard input: a request, or
  an error other than \<^verbatim>\<open>io.EOF\<close>. The input is the list of these; \<^verbatim>\<open>io.EOF\<close> is
  the end of the list.
\<close>

datatype decoded = Request rpcRequest | Malformed string

text \<open>
  The state of the process: the package variable \<^verbatim>\<open>provider\<close> (\<open>None\<close> when nil),
  the records written to standard output so far, and the outside world.
\<close>

record ('c, 'w, 't) process =
  provider :: "'c ElasticProvider option"
  stdout :: "'t rpcResponse list"
  world :: 'w

definition writeErr :: "error \<Rightarrow> ('c, 'w, 't) process \<Rightarrow> ('c, 'w, 't) process" where
  "writeErr err st = st\<lparr>stdout := stdout st @ [\<lparr>Result = None, Error = errorString err\<rparr>]\<rparr>"

text \<open>\<^verbatim>\<open>write\<close>, with its result and error arguments as one sum.\<close>

definition write_out ::
  "error + 't LogEntry list \<Rightarrow> ('c, 'w, 't) process \<Rightarrow> ('c, 'w, 't) process" where
  "write_out r st =
     (case r of
        Inl err \<Rightarrow> writeErr err st
      | Inr result \<Rightarrow> st\<lparr>stdout := stdout st @ [\<lparr>Result = Some result, Error = ''''\<rparr>]\<rparr>)"

definition ensureProvider ::
  "('c, 'w, 't) env \<Rightarrow> (string \<rightharpoonup> any) \<Rightarrow> ('c, 'w, 't) process
     \<Rightarrow> (error + 'c ElasticProvider) \<times> ('c, 'w, 't) process" where
  "ensureProvider E config st =
     (case provider st of
        Some p \<Rightarrow> (Inr p, st)
      | None \<Rightarrow>
          (case New E config (world st) of
             (Inl err, w) \<Rightarrow> (Inl err, st\<lparr>world := w\<rparr>)
           | (Inr prov, w) \<Rightarrow> (Inr prov, st\<lparr>provider := Some prov, world := w\<rparr>)))"

text \<open>The body of the loop of \<^verbatim>\<open>main\<close> after a request has been decoded.\<close>

definition serve ::
  "('c, 'w, 't) env \<Rightarrow> rpcRequest \<Rightarrow> ('c, 'w, 't) process \<Rightarrow> ('c, 'w, 't) process" where
  "serve E req st =
     (case ensureProvider E (Config req) st of
        (Inl err, st1) \<Rightarrow> writeErr err st1
      | (Inr prov, st1) \<Rightarrow>
          if Method req = ''log.query'' then
            (case UnmarshalQuery E (Payload req) of
               Inl err \<Rightarrow> writeErr (DecodeError err) st1
             | Inr query \<Rightarrow>
                 (case Query E prov query (world st1) of
                    (res, w) \<Rightarrow> write_out res (st1\<lparr>world := w\<rparr>)))
          else writeErr (UnknownMethod (Method req)) st1)"

text \<open>\<^verbatim>\<open>main\<close>: the loop, on the records still to be read.\<close>

fun main :: "('c, 'w, 't) env \<Rightarrow> decoded list \<Rightarrow> ('c, 'w, 't) process \<Rightarrow> ('c, 'w, 't) process" where
  "main E [] st = st"
| "main E (Malformed err # rest) st = writeErr (DecodeError err) st"
| "main E (Request req # rest) st = main E rest (serve E req st)"

section \<open>Sample values\<close>

text \<open>
  Concrete values on which the theorems below are evaluated. \<open>sample_time\<close> stands in
  for package \<^verbatim>\<open>time\<close> on three instants: the zero instant and two days of October
  2023, with their RFC 3339 renderings.
\<close>

datatype instant = Zero | Oct1 | Oct2

fun sample_format :: "instant \<Rightarrow> string" where
  "sample_format Zero = ''0001-01-01T00:00:00Z''"
| "sample_format Oct1 = ''2023-10-01T12:00:00Z''"
| "sample_format Oct2 = ''2023-10-02T12:00:00Z''"

definition sample_parse :: "string \<Rightarrow> instant option" where
  "sample_parse s =
     (if s = ''0001-01-01T00:00:00Z'' then Some Zero
      else if s = ''2023-10-01T12:00:00Z'' then Some Oct1
      else if s = ''2023-10-02T12:00:00Z'' then Some Oct2
      else None)"

definition sample_time :: "instant time_ops" where
  "sample_time = \<lparr>IsZero = (\<lambda>t. t = Zero), Format = sample_format, Parse = sample_parse,
                   ZeroTime = Zero\<rparr>"

definition no_scope :: QueryScope where
  "no_scope = \<lparr>QueryScope.Service = '''', Environment = '''', Team = ''''\<rparr>"

definition limit3_query :: "instant LogQuery" where
  "limit3_query = \<lparr>Start = Zero, End = Zero, Expression = None, Scope = no_scope, Limit = 3,
                    LogQuery.Metadata = Map.empty\<rparr>"

definition limit1_query :: "instant LogQuery" where
  "limit1_query = \<lparr>Start = Zero, End = Zero, Expression = None, Scope = no_scope, Limit = 1,
                    LogQuery.Metadata = Map.empty\<rparr>"

text \<open>A query with every group of clauses, and the two orders of its two metadata entries.\<close>

definition full_expression :: LogExpression where
  "full_expression =
     \<lparr>Search = ''error OR warning'', SeverityIn = [''error'', ''warn''],
      Filters = [\<lparr>Field = ''status'', Operator = ''='', Value = ''200''\<rparr>,
                 \<lparr>Field = ''env'', Operator = ''!='', Value = ''dev''\<rparr>,
                 \<lparr>Field = ''message'', Operator = ''contains'', Value = ''timeout''\<rparr>,
                 \<lparr>Field = ''url'', Operator = ''regex'', Value = ''/api/.*''\<rparr>]\<rparr>"

definition region_shard :: "(string \<times> any) list" where
  "region_shard = [(''region'', Str ''eu''), (''shard'', Integer 7)]"

definition shard_region :: "(string \<times> any) list" where
  "shard_region = [(''shard'', Integer 7), (''region'', Str ''eu'')]"

definition full_query :: "instant LogQuery" where
  "full_query =
     \<lparr>Start = Oct1, End = Oct2, Expression = Some full_expression,
      Scope = \<lparr>QueryScope.Service = ''api'', Environment = ''prod'', Team = ''core''\<rparr>,
      Limit = 0, LogQuery.Metadata = map_of region_shard\<rparr>"

text \<open>
  A filter whose operator has no case in \<^verbatim>\<open>buildFilterClause\<close>, a query whose only
  clause source is that filter, and the full query with the filter put among its four.
\<close>

definition greater_filter :: LogFilter where
  "greater_filter = \<lparr>Field = ''latency'', Operator = ''>'', Value = ''100''\<rparr>"

definition greater_only_query :: "instant LogQuery" where
  "greater_only_query =
     \<lparr>Start = Zero, End = Zero,
      Expression = Some \<lparr>Search = '''', SeverityIn = [], Filters = [greater_filter]\<rparr>,
      Scope = no_scope, Limit = 0, LogQuery.Metadata = Map.empty\<rparr>"

definition mixed_expression :: LogExpression where
  "mixed_expression =
     full_expression\<lparr>Filters :=
       take 2 (Filters full_expression) @ greater_filter # drop 2 (Filters full_expression)\<rparr>"

definition mixed_query :: "instant LogQuery" where
  "mixed_query = full_query\<lparr>Expression := Some mixed_expression\<rparr>"

text \<open>
  Hits: one with both \<open>severity\<close> and \<open>level\<close> and a number among its fields, one with
  \<open>level\<close> only, one whose \<open>severity\<close> is not a string.
\<close>

definition both_source :: "(string \<times> any) list" where
  "both_source =
     [(''@timestamp'', Str ''2023-10-01T12:00:00Z''), (''message'', Str ''Test log message''),
      (''severity'', Str ''error''), (''level'', Str ''warn''), (''service'', Str ''api-gateway''),
      (''environment'', Str ''production''), (''status'', Integer 500)]"

definition both_hit :: esHit where
  "both_hit = \<lparr>Index = ''logs-2023.10.01'', ID = ''abc123'', Score = 123 / 100,
                Source = map_of both_source\<rparr>"

definition warn_source :: "(string \<times> any) list" where
  "warn_source = [(''level'', Str ''warn''), (''host'', Str ''web-1'')]"

definition warn_hit :: esHit where
  "warn_hit = \<lparr>Index = ''logs-2023.10.01'', ID = ''abc124'', Score = 1,
                Source = map_of warn_source\<rparr>"

definition plain_source :: "(string \<times> any) list" where
  "plain_source = [(''message'', Str ''started''), (''severity'', Integer 3)]"

definition plain_hit :: esHit where
  "plain_hit = \<lparr>Index = ''logs-2023.10.01'', ID = ''abc125'', Score = 1,
                 Source = map_of plain_source\<rparr>"

text \<open>
  An outside world for sample runs. The client handle is the client configuration. The
  state of the world is the list of visiting sequences the runtime will choose, in order.
  Creating a client succeeds; a ping fails for the one address \<open>http://down:9200\<close>; a
  search finds nothing; one payload decodes, to \<open>limit1_query\<close>.
\<close>

definition sample_env :: "(esConfig, (string \<times> any) list list, instant) env" where
  "sample_env =
     \<lparr>TimePkg = sample_time,
      NewClient = (\<lambda>c w. (Inr c, w)),
      Ping = (\<lambda>cl w. (if esAddresses cl = [''http://down:9200'']
                         then Some ''connection refused'' else None, w)),
      ClientSearch = (\<lambda>cl pat body w. (SearchHits [], w)),
      RangeLoop = (\<lambda>m w. case w of [] \<Rightarrow> ([], w) | kvs # rest \<Rightarrow> (kvs, rest)),
      UnmarshalQuery = (\<lambda>s. if s = ''{limit:1}'' then Inr limit1_query
                               else Inl ''unexpected end of JSON input'')\<rparr>"

definition valid_config :: "string \<rightharpoonup> any" where
  "valid_config =
     map_of [(''addresses'', Slice [Str ''http://localhost:9200'']), (''apiKey'', Str ''id:key''),
             (''username'', Str ''elastic''), (''password'', Str ''changeme'')]"




definition sample_provider :: "esConfig ElasticProvider" where
  "sample_provider =
     \<lparr>cfg = \<lparr>Addresses = [''http://localhost:9200''], Username = ''elastic'',
              Password = ''changeme'', APIKey = ''id:key'', CloudID = '''',
              IndexPattern = ''logs-*''\<rparr>,
      client = \<lparr>esAddresses = [''http://localhost:9200''], esUsername = '''', esPassword = '''',
                 esAPIKey = ''id:key'', esCloudID = ''''\<rparr>\<rparr>"

definition query_request :: rpcRequest where
  "query_request = \<lparr>Method = ''log.query'', Config = valid_config, Payload = ''{limit:1}''\<rparr>"

definition bogus_request :: rpcRequest where
  "bogus_request = \<lparr>Method = ''log.tail'', Config = Map.empty, Payload = ''''\<rparr>"

definition fresh :: "(esConfig, (string \<times> any) list list, instant) process" where
  "fresh = \<lparr>provider = None, stdout = [], world = []\<rparr>"

definition ready :: "(esConfig, (string \<times> any) list list, instant) process" where
  "ready = \<lparr>provider = Some sample_provider, stdout = [], world = []\<rparr>"

section \<open>Auxiliary facts\<close>

subsection \<open>Each block of the query builder appends its group\<close>

lemma buildFilterClause_spec:
  "buildFilterClause f = (if recognised (Operator f) then Some (spec_filter_clause f) else None)"
  by (simp add: buildFilterClause_def recognised_def spec_filter_clause_def spec_term_def)

lemma add_filters_append:
  "add_filters fs mc = mc @ map spec_filter_clause (filter (\<lambda>f. recognised (Operator f)) fs)"
  unfolding add_filters_def
  by (induction fs arbitrary: mc) (simp_all add: buildFilterClause_spec)

lemma add_metadata_append: "add_metadata kvs mc = mc @ spec_metadata kvs"
  unfolding add_metadata_def spec_metadata_def spec_term_def
  by (induction kvs arbitrary: mc) (simp_all add: case_prod_beta)

lemma add_time_range_append: "add_time_range T query mc = mc @ spec_time_range T query"
  by (simp add: add_time_range_def spec_time_range_def Let_def)

lemma add_expression_append:
  "add_expression query mc = mc @ spec_free_text query @ spec_severity query @ spec_filters query"
  by (simp add: add_expression_def spec_free_text_def spec_severity_def spec_filters_def
        add_filters_append Let_def split: option.split)

lemma add_scope_append: "add_scope query mc = mc @ spec_scope query"
  by (simp add: add_scope_def spec_scope_def spec_term_def Let_def)

lemma buildQuery_document:
  "buildQuery T kvs query =
     Object [
       (''query'', Object [(''bool'', Object [(''must'', Slice (spec_clauses T kvs query))])]),
       (''sort'', Slice [Object [(''@timestamp'', Object [(''order'', Str ''desc'')])]]),
       (''size'', Integer (if Limit query > 0 then Limit query else 1000))]"
  by (simp add: buildQuery_def Let_def spec_clauses_def spec_fixed_def add_time_range_append
        add_expression_append add_scope_append add_metadata_append)

lemma must_of_buildQuery: "must_of (buildQuery T kvs query) = spec_clauses T kvs query"
  by (simp add: buildQuery_document must_of_def)

lemma recognised_filter: "recognised (Operator f) \<longleftrightarrow> buildFilterClause f \<noteq> None"
  by (simp add: buildFilterClause_spec)

lemma spec_fixed_unknown:
  assumes "\<not> recognised (Operator f)"
  shows "spec_fixed T (query\<lparr>Expression := Some (e\<lparr>Filters := fs1 @ f # fs2\<rparr>)\<rparr>) =
         spec_fixed T (query\<lparr>Expression := Some (e\<lparr>Filters := fs1 @ fs2\<rparr>)\<rparr>)"
  using assms
  by (simp add: spec_fixed_def spec_time_range_def spec_free_text_def spec_severity_def
        spec_filters_def spec_scope_def)

subsection \<open>Visiting sequences of one map\<close>

lemma range_order_set: "range_order m kvs \<Longrightarrow> set kvs = {(k, v). m k = Some v}"
  by (auto simp: range_order_def)

lemma range_order_distinct: "range_order m kvs \<Longrightarrow> distinct kvs"
  by (auto simp: range_order_def distinct_map)

lemma range_order_mset:
  assumes "range_order m kvs1" and "range_order m kvs2"
  shows "mset kvs1 = mset kvs2"
  using assms
  by (simp add: set_eq_iff_mset_eq_distinct [symmetric] range_order_distinct range_order_set)

lemma range_order_length: "range_order m kvs \<Longrightarrow> length kvs = card (dom m)"
proof -
  assume r: "range_order m kvs"
  then have "dom m = set (map fst kvs)"
    by (auto simp: range_order_def dom_map_of_conv_image_fst intro: rev_image_eqI)
  moreover have "distinct (map fst kvs)" using r by (simp add: range_order_def)
  ultimately show ?thesis
    by (metis distinct_card length_map)
qed

lemma range_order_small:
  assumes "range_order m kvs1" and "range_order m kvs2" and "card (dom m) \<le> 1"
  shows "kvs1 = kvs2"
proof -
  have l1: "length kvs1 \<le> 1" and l2: "length kvs2 \<le> 1"
    using assms by (simp_all add: range_order_length)
  have s: "set kvs1 = set kvs2"
    using assms by (simp add: range_order_set)
  show ?thesis
  proof (cases kvs1)
    case Nil
    with s show ?thesis by simp
  next
    case (Cons a as)
    with l1 have k1: "kvs1 = [a]" by simp
    with s l2 show ?thesis by (cases kvs2) auto
  qed
qed

lemma spec_term_inj: "spec_term k v = spec_term k' v' \<longleftrightarrow> k = k' \<and> v = v'"
  by (auto simp: spec_term_def)

lemma spec_metadata_member:
  "range_order m kvs \<Longrightarrow> spec_term k v \<in> set (spec_metadata kvs) \<longleftrightarrow> m k = Some v"
  by (auto simp: spec_metadata_def spec_term_inj range_order_set)

lemma region_shard_order: "range_order (LogQuery.Metadata full_query) region_shard"
  by (simp add: range_order_def full_query_def region_shard_def)

lemma shard_region_order: "range_order (LogQuery.Metadata full_query) shard_region"
  by (auto simp: range_order_def full_query_def region_shard_def shard_region_def fun_eq_iff)

subsection \<open>The two range loops of the normalizer\<close>

lemma as_string_Some: "as_string x = Some s \<longleftrightarrow> x = Some (Str s)"
  by (cases x rule: as_string.cases) auto

lemma labels_loop:
  "distinct (map fst kvs) \<Longrightarrow>
   fold (\<lambda>(key, v) labels.
           if skipped key then labels
           else (case as_string (Some v) of
                   Some strVal \<Rightarrow> labels(key \<mapsto> strVal)
                 | None \<Rightarrow> labels)) kvs m k =
   (case map_of kvs k of
      None \<Rightarrow> m k
    | Some v \<Rightarrow> if skipped k then m k
                else (case as_string (Some v) of Some s \<Rightarrow> Some s | None \<Rightarrow> m k))"
proof (induction kvs arbitrary: m)
  case Nil
  then show ?case by simp
next
  case (Cons a kvs)
  obtain key v where a: "a = (key, v)" by (cases a)
  from Cons.prems a have nk: "map_of kvs key = None" and d: "distinct (map fst kvs)"
    by (auto simp: map_of_eq_None_iff)
  show ?case
    using nk by (simp add: a Cons.IH [OF d] split: option.split)
qed

lemma fields_loop:
  "distinct (map fst kvs) \<Longrightarrow>
   fold (\<lambda>(key, v) fields. if skipped key then fields else fields(key \<mapsto> v)) kvs m k =
   (case map_of kvs k of
      None \<Rightarrow> m k
    | Some v \<Rightarrow> if skipped k then m k else Some v)"
proof (induction kvs arbitrary: m)
  case Nil
  then show ?case by simp
next
  case (Cons a kvs)
  obtain key v where a: "a = (key, v)" by (cases a)
  from Cons.prems a have nk: "map_of kvs key = None" and d: "distinct (map fst kvs)"
    by (auto simp: map_of_eq_None_iff)
  show ?case
    using nk by (simp add: a Cons.IH [OF d] split: option.split)
qed

lemma Labels_normalizeHit:
  "Labels (normalizeHit T kvs1 kvs2 hit) =
   fold (\<lambda>(key, v) labels.
           if skipped key then labels
           else (case as_string (Some v) of
                   Some strVal \<Rightarrow> labels(key \<mapsto> strVal)
                 | None \<Rightarrow> labels)) kvs1 Map.empty"
  by (simp add: normalizeHit_def Let_def)

lemma Fields_normalizeHit:
  "Fields (normalizeHit T kvs1 kvs2 hit) =
   fold (\<lambda>(key, v) fields. if skipped key then fields else fields(key \<mapsto> v)) kvs2 Map.empty"
  by (simp add: normalizeHit_def Let_def)

lemma Severity_normalizeHit:
  "Severity (normalizeHit T kvs1 kvs2 hit) =
   (case as_string (Source hit ''severity'') of
      Some sev \<Rightarrow> sev
    | None \<Rightarrow> (case as_string (Source hit ''level'') of Some level \<Rightarrow> level | None \<Rightarrow> ''''))"
  by (simp add: normalizeHit_def Let_def split: option.split)

lemma Labels_value:
  assumes "range_order (Source hit) kvs1"
  shows "Labels (normalizeHit T kvs1 kvs2 hit) k =
         (if skipped k then None else as_string (Source hit k))"
proof -
  from assms have d: "distinct (map fst kvs1)" and m: "map_of kvs1 = Source hit"
    by (simp_all add: range_order_def)
  show ?thesis
    by (cases "Source hit k"; cases "as_string (Source hit k)")
       (simp_all add: Labels_normalizeHit labels_loop [OF d] m)
qed

lemma Fields_value:
  assumes "range_order (Source hit) kvs2"
  shows "Fields (normalizeHit T kvs1 kvs2 hit) k =
         (if skipped k then None else Source hit k)"
proof -
  from assms have d: "distinct (map fst kvs2)" and m: "map_of kvs2 = Source hit"
    by (simp_all add: range_order_def)
  show ?thesis
    by (simp add: Fields_normalizeHit fields_loop [OF d] m split: option.split)
qed

lemma both_source_order: "range_order (Source both_hit) both_source"
  by (simp add: range_order_def both_hit_def both_source_def)

subsection \<open>Configuration\<close>

lemma as_slice_Some: "as_slice x = Some xs \<longleftrightarrow> x = Some (Slice xs)"
  by (cases x rule: as_slice.cases) auto






subsection \<open>The transport loop\<close>

lemma writeErr_simps:
  "stdout (writeErr err st) = stdout st @ [\<lparr>Result = None, Error = errorString err\<rparr>]"
  "provider (writeErr err st) = provider st"
  "world (writeErr err st) = world st"
  by (simp_all add: writeErr_def)

lemma write_out_one: "\<exists>r. stdout (write_out res st) = stdout st @ [r]"
  by (cases res) (simp_all add: write_out_def writeErr_simps)

lemma write_out_provider: "provider (write_out res st) = provider st"
  by (cases res) (simp_all add: write_out_def writeErr_simps)

lemma ensureProvider_stdout: "stdout (snd (ensureProvider E config st)) = stdout st"
  by (simp add: ensureProvider_def split: option.split prod.split sum.split)

lemma ensureProvider_memo:
  "provider st = Some p \<Longrightarrow> ensureProvider E config st = (Inr p, st)"
  by (simp add: ensureProvider_def)

lemma serve_one: "\<exists>r. stdout (serve E req st) = stdout st @ [r]"
proof (cases "ensureProvider E (Config req) st")
  case (Pair res st1)
  have s1: "stdout st1 = stdout st"
    using ensureProvider_stdout [of E "Config req" st] Pair by simp
  show ?thesis
  proof (cases res)
    case (Inl err)
    with Pair s1 show ?thesis by (simp add: serve_def writeErr_simps)
  next
    case (Inr prov)
    show ?thesis
    proof (cases "Method req = ''log.query''")
      case False
      with Pair Inr s1 show ?thesis by (simp add: serve_def writeErr_simps)
    next
      case True
      show ?thesis
      proof (cases "UnmarshalQuery E (Payload req)")
        case (Inl err)
        with Pair Inr True s1 show ?thesis by (simp add: serve_def writeErr_simps)
      next
        case q: (Inr query)
        obtain out w where o: "Query E prov query (world st1) = (out, w)"
          by (cases "Query E prov query (world st1)")
        from write_out_one [of out "st1\<lparr>world := w\<rparr>"] s1
        show ?thesis using Pair Inr True q o by (simp add: serve_def)
      qed
    qed
  qed
qed

lemma serve_length: "length (stdout (serve E req st)) = Suc (length (stdout st))"
  using serve_one [of E req st] by auto

lemma main_requests_length:
  "length (stdout (main E (map Request reqs) st)) = length (stdout st) + length reqs"
  by (induction reqs arbitrary: st) (simp_all add: serve_length)

lemma main_requests_then:
  "main E (map Request reqs @ rest) st = main E rest (main E (map Request reqs) st)"
  by (induction reqs arbitrary: st) simp_all

lemma serve_memo_config:
  assumes "provider st = Some p"
  shows "serve E (req\<lparr>Config := config\<rparr>) st = serve E req st"
  using assms by (simp add: serve_def ensureProvider_memo)

lemma serve_memo_provider:
  assumes "provider st = Some p"
  shows "provider (serve E req st) = Some p"
  using assms
  by (simp add: serve_def ensureProvider_memo writeErr_simps write_out_provider
        split: sum.split prod.split)

lemma main_memo_provider:
  "provider st = Some p \<Longrightarrow> provider (main E input st) = Some p"
proof (induction input arbitrary: st)
  case Nil
  then show ?case by simp
next
  case (Cons d input)
  then show ?case
    by (cases d) (simp_all add: serve_memo_provider writeErr_simps)
qed

lemma main_memo_config:
  "provider st = Some p \<Longrightarrow>
   main E (map (\<lambda>r. Request (r\<lparr>Config := alt r\<rparr>)) reqs) st = main E (map Request reqs) st"
proof (induction reqs arbitrary: st)
  case Nil
  then show ?case by simp
next
  case (Cons r reqs)
  from Cons.prems have "provider (serve E r st) = Some p"
    by (rule serve_memo_provider)
  from Cons.IH [OF this] Cons.prems show ?case
    by (simp add: serve_memo_config)
qed

lemma serve_construction_fails:
  assumes "provider st = None" and "New E (Config req) (world st) = (Inl err, w)"
  shows "serve E req st =
         st\<lparr>stdout := stdout st @ [\<lparr>Result = None, Error = errorString err\<rparr>], world := w\<rparr>"
  using assms by (simp add: serve_def ensureProvider_def writeErr_def)

lemma serve_construction_succeeds:
  assumes "provider st = None" and "New E (Config req) (world st) = (Inr prov, w)"
  shows "provider (serve E req st) = Some prov"
  using assms
  by (simp add: serve_def ensureProvider_def writeErr_simps write_out_provider
        split: sum.split prod.split)

subsection \<open>A sample run\<close>

lemma New_valid_config: "New sample_env valid_config [] = (Inr sample_provider, [])"
  by (simp add: New_def parseConfig_def valid_config_def sample_provider_def sample_env_def
        client_config_def Let_def)

lemma New_empty_config: "New sample_env Map.empty [] = (Inl ConfigError, [])"
  by (simp add: New_def parseConfig_def Let_def)

lemma Query_sample:
  "Query sample_env sample_provider limit1_query [] = (Inr [], [])"
  by (simp add: Query_def sample_env_def)

lemma Unmarshal_sample: "UnmarshalQuery sample_env ''{limit:1}'' = Inr limit1_query"
  by (simp add: sample_env_def)

lemma serve_query_fresh:
  "serve sample_env query_request fresh =
     \<lparr>provider = Some sample_provider, stdout = [\<lparr>Result = Some [], Error = ''''\<rparr>], world = []\<rparr>"
  by (simp add: serve_def ensureProvider_def fresh_def query_request_def New_valid_config
        Unmarshal_sample Query_sample write_out_def)

lemma serve_query_ready:
  "serve sample_env query_request ready =
     \<lparr>provider = Some sample_provider, stdout = [\<lparr>Result = Some [], Error = ''''\<rparr>], world = []\<rparr>"
  by (simp add: serve_def ensureProvider_def ready_def query_request_def
        Unmarshal_sample Query_sample write_out_def)

lemma serve_bogus_ready:
  "serve sample_env bogus_request ready =
     \<lparr>provider = Some sample_provider,
      stdout = [\<lparr>Result = None, Error = ''unknown method: log.tail''\<rparr>], world = []\<rparr>"
  by (simp add: serve_def ensureProvider_def ready_def bogus_request_def writeErr_def)

section \<open>Clause order of the built query\<close>

text \<open>
  C1, as stated: for every query the \<open>must\<close> list holds, after the time-range, free-text
  and severity clauses, one clause per structured filter in input order. A query whose
  expression has one filter, with the operator \<open>>\<close>, and nothing else refutes it: the
  query has one filter and the built document has no clause at all.
\<close>

theorem buildQuery_unknown_filter_counterexample:
  "range_order (LogQuery.Metadata greater_only_query) []
   \<and> map_option Filters (Expression greater_only_query) = Some [greater_filter]
   \<and> must_of (buildQuery sample_time [] greater_only_query) = []"
  by (simp add: range_order_def greater_only_query_def buildQuery_def Let_def add_time_range_def
        add_expression_def add_filters_def add_scope_def add_metadata_def no_scope_def
        sample_time_def buildFilterClause_def greater_filter_def must_of_def)

text \<open>
  C1, amended: for every query and every visiting sequence of its metadata, the document
  \<open>buildQuery\<close> returns has exactly three keys: \<open>query\<close>, holding a single \<open>bool\<close>
  with a single \<open>must\<close> list; \<open>sort\<close>, descending by \<open>@timestamp\<close>; and \<open>size\<close>.
  The \<open>must\<close> list is, in this order: the time-range clause (present when start or end
  is non-zero, with \<open>gte\<close> from a non-zero start and \<open>lte\<close> from a non-zero end), the
  \<open>query_string\<close> clause (when the search text is non-empty), the severity \<open>terms\<close>
  clause (when the severity list is non-empty), one clause for each filter whose operator
  is one of \<open>=\<close>, \<open>!=\<close>, \<open>contains\<close>, \<open>regex\<close>, in input order (a filter with any
  other operator contributes none), the \<open>term\<close> clauses of the non-empty service,
  environment and team in that order, and one \<open>term\<close> clause for each metadata entry.
\<close>

theorem buildQuery_clause_order:
  assumes "range_order (LogQuery.Metadata query) kvs"
  shows "buildQuery T kvs query =
           Object [
             (''query'', Object [(''bool'', Object [(''must'', Slice
                (spec_time_range T query @ spec_free_text query @ spec_severity query @
                 spec_filters query @ spec_scope query @ spec_metadata kvs))])]),
             (''sort'', Slice [Object [(''@timestamp'', Object [(''order'', Str ''desc'')])]]),
             (''size'', Integer (if Limit query > 0 then Limit query else 1000))]
       \<and> length (spec_metadata kvs) = card (dom (LogQuery.Metadata query))
       \<and> (\<forall>k v. spec_term k v \<in> set (spec_metadata kvs) \<longleftrightarrow> LogQuery.Metadata query k = Some v)
       \<and> (\<forall>e. Expression query = Some e
              \<longrightarrow> length (spec_filters query) =
                  length (filter (\<lambda>f. recognised (Operator f)) (Filters e)))
       \<and> (\<forall>e. Expression query = Some e \<and> (\<forall>f\<in>set (Filters e). recognised (Operator f))
              \<longrightarrow> spec_filters query = map spec_filter_clause (Filters e))"
proof -
  have doc: "buildQuery T kvs query =
           Object [
             (''query'', Object [(''bool'', Object [(''must'', Slice
                (spec_time_range T query @ spec_free_text query @ spec_severity query @
                 spec_filters query @ spec_scope query @ spec_metadata kvs))])]),
             (''sort'', Slice [Object [(''@timestamp'', Object [(''order'', Str ''desc'')])]]),
             (''size'', Integer (if Limit query > 0 then Limit query else 1000))]"
    using buildQuery_document [of T kvs query] by (simp add: spec_clauses_def spec_fixed_def)
  have len: "length (spec_metadata kvs) = card (dom (LogQuery.Metadata query))"
    using range_order_length [OF assms] by (simp add: spec_metadata_def)
  have mem: "\<forall>k v. spec_term k v \<in> set (spec_metadata kvs) \<longleftrightarrow> LogQuery.Metadata query k = Some v"
    using spec_metadata_member [OF assms] by blast
  have cnt: "\<forall>e. Expression query = Some e
              \<longrightarrow> length (spec_filters query) =
                  length (filter (\<lambda>f. recognised (Operator f)) (Filters e))"
    by (simp add: spec_filters_def)
  have flt: "\<forall>e. Expression query = Some e \<and> (\<forall>f\<in>set (Filters e). recognised (Operator f))
              \<longrightarrow> spec_filters query = map spec_filter_clause (Filters e)"
    by (simp add: spec_filters_def)
  from doc len mem cnt flt show ?thesis by blast
qed

text \<open>
  The clauses of a query that has every group, with a \<open>>\<close> filter between its second
  and third filter.
\<close>

theorem buildQuery_clause_order_witness:
  "range_order (LogQuery.Metadata mixed_query) region_shard
   \<and> map (\<lambda>f. (Field f, Operator f)) (Filters mixed_expression) =
       [(''status'', ''=''), (''env'', ''!=''), (''latency'', ''>''), (''message'', ''contains''),
        (''url'', ''regex'')]
   \<and> must_of (buildQuery sample_time region_shard mixed_query) =
       [Object [(''range'', Object [(''@timestamp'',
          Object [(''gte'', Str ''2023-10-01T12:00:00Z''), (''lte'', Str ''2023-10-02T12:00:00Z'')])])],
        Object [(''query_string'', Object [(''query'', Str ''error OR warning'')])],
        Object [(''terms'', Object [(''severity'', Strs [''error'', ''warn''])])],
        Object [(''term'', Object [(''status'', Str ''200'')])],
        Object [(''bool'', Object [(''must_not'', Object [(''term'', Object [(''env'', Str ''dev'')])])])],
        Object [(''wildcard'', Object [(''message'', Object [(''value'', Str ''*timeout*'')])])],
        Object [(''regexp'', Object [(''url'', Object [(''value'', Str ''/api/.*'')])])],
        Object [(''term'', Object [(''service'', Str ''api'')])],
        Object [(''term'', Object [(''environment'', Str ''prod'')])],
        Object [(''term'', Object [(''team'', Str ''core'')])],
        Object [(''term'', Object [(''region'', Str ''eu'')])],
        Object [(''term'', Object [(''shard'', Integer 7)])]]
   \<and> member (buildQuery sample_time region_shard mixed_query) ''sort'' =
       Some (Slice [Object [(''@timestamp'', Object [(''order'', Str ''desc'')])]])"
proof -
  have r: "range_order (LogQuery.Metadata mixed_query) region_shard"
    by (simp add: range_order_def mixed_query_def full_query_def region_shard_def)
  have fs: "map (\<lambda>f. (Field f, Operator f)) (Filters mixed_expression) =
       [(''status'', ''=''), (''env'', ''!=''), (''latency'', ''>''), (''message'', ''contains''),
        (''url'', ''regex'')]"
    by (simp add: mixed_expression_def full_expression_def greater_filter_def)
  from buildQuery_clause_order [OF r, of sample_time] r fs show ?thesis
    by (simp add: must_of_def spec_time_range_def spec_free_text_def spec_severity_def
          spec_filters_def spec_filter_clause_def recognised_def spec_scope_def
          spec_metadata_def spec_term_def mixed_query_def mixed_expression_def full_query_def
          full_expression_def greater_filter_def region_shard_def sample_time_def)
qed

section \<open>Configuration validation at construction\<close>



section \<open>Filters with an unknown operator\<close>

text \<open>
  C3, as stated: for a filter whose operator is none of \<open>=\<close>, \<open>!=\<close>, \<open>contains\<close>,
  \<open>regex\<close>, the query built from a filter list that contains the filter is identical to
  the query built from the list without it. Each of the two builds runs its own range
  loop over the metadata. With two metadata entries the build with the \<open>>\<close> filter,
  visiting \<open>region\<close> first, and the build without it, visiting \<open>shard\<close> first, differ.
\<close>

theorem unknown_operator_counterexample:
  "\<not> recognised (Operator greater_filter)
   \<and> range_order (LogQuery.Metadata full_query) region_shard
   \<and> range_order (LogQuery.Metadata full_query) shard_region
   \<and> buildQuery sample_time region_shard
        (full_query\<lparr>Expression := Some (full_expression\<lparr>Filters :=
           take 2 (Filters full_expression) @ greater_filter # drop 2 (Filters full_expression)\<rparr>)\<rparr>) \<noteq>
     buildQuery sample_time shard_region
        (full_query\<lparr>Expression := Some (full_expression\<lparr>Filters :=
           take 2 (Filters full_expression) @ drop 2 (Filters full_expression)\<rparr>)\<rparr>)"
proof -
  have u: "\<not> recognised (Operator greater_filter)"
    by (simp add: recognised_def greater_filter_def)
  have "must_of (buildQuery sample_time region_shard
        (full_query\<lparr>Expression := Some (full_expression\<lparr>Filters :=
           take 2 (Filters full_expression) @ greater_filter # drop 2 (Filters full_expression)\<rparr>)\<rparr>)) \<noteq>
     must_of (buildQuery sample_time shard_region
        (full_query\<lparr>Expression := Some (full_expression\<lparr>Filters :=
           take 2 (Filters full_expression) @ drop 2 (Filters full_expression)\<rparr>)\<rparr>))"
    by (simp add: must_of_buildQuery spec_clauses_def spec_fixed_unknown [OF u]
          spec_metadata_def spec_term_def region_shard_def shard_region_def)
  then have "buildQuery sample_time region_shard
        (full_query\<lparr>Expression := Some (full_expression\<lparr>Filters :=
           take 2 (Filters full_expression) @ greater_filter # drop 2 (Filters full_expression)\<rparr>)\<rparr>) \<noteq>
     buildQuery sample_time shard_region
        (full_query\<lparr>Expression := Some (full_expression\<lparr>Filters :=
           take 2 (Filters full_expression) @ drop 2 (Filters full_expression)\<rparr>)\<rparr>)"
    by auto
  with u region_shard_order shard_region_order show ?thesis by simp
qed

text \<open>
  C3, amended: for a filter whose operator is none of \<open>=\<close>, \<open>!=\<close>, \<open>contains\<close>,
  \<open>regex\<close>, \<open>buildFilterClause\<close> returns no clause and \<open>buildQuery\<close> emits nothing
  for it. A build from a filter list that contains the filter and a build from the list
  without it, each with its own visiting sequence of the metadata, have the same number
  of clauses, the same clauses before the metadata clauses in the same order (those of
  the list without the filter), the same metadata clauses up to their order, and the same
  sort and size. The two documents are identical when both builds visit the metadata in
  the same order, and always when the metadata has at most one entry.
\<close>

theorem unknown_operator_dropped:
  assumes "\<not> recognised (Operator f)"
      and "range_order (LogQuery.Metadata query) kvs1"
      and "range_order (LogQuery.Metadata query) kvs2"
  shows "buildFilterClause f = None
       \<and> length (must_of (buildQuery T kvs1 (query\<lparr>Expression := Some (e\<lparr>Filters := fs1 @ f # fs2\<rparr>)\<rparr>))) =
         length (must_of (buildQuery T kvs2 (query\<lparr>Expression := Some (e\<lparr>Filters := fs1 @ fs2\<rparr>)\<rparr>)))
       \<and> must_of (buildQuery T kvs1 (query\<lparr>Expression := Some (e\<lparr>Filters := fs1 @ f # fs2\<rparr>)\<rparr>)) =
         spec_fixed T (query\<lparr>Expression := Some (e\<lparr>Filters := fs1 @ fs2\<rparr>)\<rparr>) @ spec_metadata kvs1
       \<and> must_of (buildQuery T kvs2 (query\<lparr>Expression := Some (e\<lparr>Filters := fs1 @ fs2\<rparr>)\<rparr>)) =
         spec_fixed T (query\<lparr>Expression := Some (e\<lparr>Filters := fs1 @ fs2\<rparr>)\<rparr>) @ spec_metadata kvs2
       \<and> mset (must_of (buildQuery T kvs1 (query\<lparr>Expression := Some (e\<lparr>Filters := fs1 @ f # fs2\<rparr>)\<rparr>))) =
         mset (must_of (buildQuery T kvs2 (query\<lparr>Expression := Some (e\<lparr>Filters := fs1 @ fs2\<rparr>)\<rparr>)))
       \<and> member (buildQuery T kvs1 (query\<lparr>Expression := Some (e\<lparr>Filters := fs1 @ f # fs2\<rparr>)\<rparr>)) ''sort'' =
         member (buildQuery T kvs2 (query\<lparr>Expression := Some (e\<lparr>Filters := fs1 @ fs2\<rparr>)\<rparr>)) ''sort''
       \<and> member (buildQuery T kvs1 (query\<lparr>Expression := Some (e\<lparr>Filters := fs1 @ f # fs2\<rparr>)\<rparr>)) ''size'' =
         member (buildQuery T kvs2 (query\<lparr>Expression := Some (e\<lparr>Filters := fs1 @ fs2\<rparr>)\<rparr>)) ''size''
       \<and> (kvs1 = kvs2 \<or> card (dom (LogQuery.Metadata query)) \<le> 1 \<longrightarrow>
            buildQuery T kvs1 (query\<lparr>Expression := Some (e\<lparr>Filters := fs1 @ f # fs2\<rparr>)\<rparr>) =
            buildQuery T kvs2 (query\<lparr>Expression := Some (e\<lparr>Filters := fs1 @ fs2\<rparr>)\<rparr>))"
proof -
  let ?q1 = "query\<lparr>Expression := Some (e\<lparr>Filters := fs1 @ f # fs2\<rparr>)\<rparr>"
  let ?q2 = "query\<lparr>Expression := Some (e\<lparr>Filters := fs1 @ fs2\<rparr>)\<rparr>"
  have n: "buildFilterClause f = None"
    using assms(1) by (simp add: recognised_filter)
  have fx: "spec_fixed T ?q1 = spec_fixed T ?q2"
    using assms(1) by (rule spec_fixed_unknown)
  have m1: "must_of (buildQuery T kvs1 ?q1) = spec_fixed T ?q2 @ spec_metadata kvs1"
    by (simp add: must_of_buildQuery spec_clauses_def fx)
  have m2: "must_of (buildQuery T kvs2 ?q2) = spec_fixed T ?q2 @ spec_metadata kvs2"
    by (simp add: must_of_buildQuery spec_clauses_def)
  have "mset kvs1 = mset kvs2"
    using assms(2,3) by (rule range_order_mset)
  then have ms: "mset (spec_metadata kvs1) = mset (spec_metadata kvs2)"
    by (simp add: spec_metadata_def)
  have mm: "mset (must_of (buildQuery T kvs1 ?q1)) = mset (must_of (buildQuery T kvs2 ?q2))"
    using ms by (simp add: m1 m2)
  have ln: "length (must_of (buildQuery T kvs1 ?q1)) = length (must_of (buildQuery T kvs2 ?q2))"
    using mm by (metis size_mset)
  have so: "member (buildQuery T kvs1 ?q1) ''sort'' = member (buildQuery T kvs2 ?q2) ''sort''"
   and sz: "member (buildQuery T kvs1 ?q1) ''size'' = member (buildQuery T kvs2 ?q2) ''size''"
    by (simp_all add: buildQuery_document)
  have eq: "kvs1 = kvs2 \<Longrightarrow> buildQuery T kvs1 ?q1 = buildQuery T kvs2 ?q2"
    by (simp add: buildQuery_document spec_clauses_def fx)
  have sm: "kvs1 = kvs2 \<or> card (dom (LogQuery.Metadata query)) \<le> 1 \<longrightarrow>
            buildQuery T kvs1 ?q1 = buildQuery T kvs2 ?q2"
    using eq range_order_small [OF assms(2,3)] by blast
  from n ln m1 m2 mm so sz sm show ?thesis by blast
qed

text \<open>
  The full query with a \<open>>\<close> filter put among its four filters, built in one order of
  the metadata, and the full query built in the other order and in the same order.
\<close>

theorem unknown_operator_dropped_witness:
  "\<not> recognised (Operator greater_filter)
   \<and> range_order (LogQuery.Metadata full_query) region_shard
   \<and> range_order (LogQuery.Metadata full_query) shard_region
   \<and> buildFilterClause greater_filter = None
   \<and> length (must_of (buildQuery sample_time region_shard mixed_query)) = 12
   \<and> length (must_of (buildQuery sample_time shard_region full_query)) = 12
   \<and> mset (must_of (buildQuery sample_time region_shard mixed_query)) =
     mset (must_of (buildQuery sample_time shard_region full_query))
   \<and> buildQuery sample_time region_shard mixed_query =
     buildQuery sample_time region_shard full_query"
proof -
  have u: "\<not> recognised (Operator greater_filter)"
    by (simp add: recognised_def greater_filter_def)
  have r1: "range_order (LogQuery.Metadata full_query) region_shard"
    by (simp add: range_order_def full_query_def region_shard_def)
  have r2: "range_order (LogQuery.Metadata full_query) shard_region"
    by (auto simp: range_order_def full_query_def region_shard_def shard_region_def fun_eq_iff)
  have same: "full_query\<lparr>Expression := Some (full_expression\<lparr>Filters :=
           take 2 (Filters full_expression) @ drop 2 (Filters full_expression)\<rparr>)\<rparr> = full_query"
    by (simp add: full_query_def)
  have mixed: "full_query\<lparr>Expression := Some (full_expression\<lparr>Filters :=
           take 2 (Filters full_expression) @ greater_filter # drop 2 (Filters full_expression)\<rparr>)\<rparr> =
           mixed_query"
    by (simp add: mixed_query_def mixed_expression_def)
  have len: "length (must_of (buildQuery sample_time shard_region full_query)) = 12"
    by (simp add: must_of_buildQuery spec_clauses_def spec_fixed_def spec_time_range_def
          spec_free_text_def spec_severity_def spec_filters_def recognised_def spec_scope_def
          spec_metadata_def full_query_def full_expression_def shard_region_def sample_time_def)
  note d1 = unknown_operator_dropped [OF u r1 r2, where T = sample_time and e = full_expression
         and ?fs1.0 = "take 2 (Filters full_expression)"
         and ?fs2.0 = "drop 2 (Filters full_expression)"]
  note d2 = unknown_operator_dropped [OF u r1 r1, where T = sample_time and e = full_expression
         and ?fs1.0 = "take 2 (Filters full_expression)"
         and ?fs2.0 = "drop 2 (Filters full_expression)"]
  from d1 have a: "buildFilterClause greater_filter = None
       \<and> length (must_of (buildQuery sample_time region_shard mixed_query)) =
         length (must_of (buildQuery sample_time shard_region full_query))
       \<and> mset (must_of (buildQuery sample_time region_shard mixed_query)) =
         mset (must_of (buildQuery sample_time shard_region full_query))"
    unfolding same mixed by blast
  from d2 have b: "buildQuery sample_time region_shard mixed_query =
                   buildQuery sample_time region_shard full_query"
    unfolding same mixed by blast
  from u r1 r2 a b len show ?thesis by simp
qed

section \<open>Severity of a normalized entry\<close>

text \<open>
  C4. The severity of the normalized entry is the value of the source's \<open>severity\<close>
  field when that is a string; otherwise the value of the \<open>level\<close> field when that is
  a string; otherwise the empty string. A source with \<open>level\<close> \<open>warn\<close> and no
  \<open>severity\<close> gives \<open>warn\<close>, and with both fields holding strings \<open>severity\<close> wins.
  This holds whatever order the range loops run in.
\<close>

theorem severity_fallback:
  "(\<forall>s. Source hit ''severity'' = Some (Str s) \<longrightarrow> Severity (normalizeHit T kvs1 kvs2 hit) = s)
   \<and> (\<forall>l. (\<forall>s. Source hit ''severity'' \<noteq> Some (Str s)) \<and> Source hit ''level'' = Some (Str l)
          \<longrightarrow> Severity (normalizeHit T kvs1 kvs2 hit) = l)
   \<and> ((\<forall>s. Source hit ''severity'' \<noteq> Some (Str s)) \<and> (\<forall>l. Source hit ''level'' \<noteq> Some (Str l))
          \<longrightarrow> Severity (normalizeHit T kvs1 kvs2 hit) = '''')
   \<and> (Source hit ''severity'' = None \<and> Source hit ''level'' = Some (Str ''warn'')
          \<longrightarrow> Severity (normalizeHit T kvs1 kvs2 hit) = ''warn'')
   \<and> (\<forall>s l. Source hit ''severity'' = Some (Str s) \<and> Source hit ''level'' = Some (Str l)
          \<longrightarrow> Severity (normalizeHit T kvs1 kvs2 hit) = s)"
proof -
  have a: "as_string (Source hit ''severity'') = None \<longleftrightarrow> (\<forall>s. Source hit ''severity'' \<noteq> Some (Str s))"
    using as_string_Some [of "Source hit ''severity''"]
    by (cases "as_string (Source hit ''severity'')") auto
  have b: "as_string (Source hit ''level'') = None \<longleftrightarrow> (\<forall>l. Source hit ''level'' \<noteq> Some (Str l))"
    using as_string_Some [of "Source hit ''level''"]
    by (cases "as_string (Source hit ''level'')") auto
  show ?thesis
    unfolding Severity_normalizeHit
    using a b by (auto split: option.split)
qed

theorem severity_fallback_witness:
  "Source warn_hit ''severity'' = None \<and> Source warn_hit ''level'' = Some (Str ''warn'')
   \<and> Severity (normalizeHit sample_time warn_source warn_source warn_hit) = ''warn''
   \<and> Source both_hit ''severity'' = Some (Str ''error'')
   \<and> Source both_hit ''level'' = Some (Str ''warn'')
   \<and> Severity (normalizeHit sample_time both_source both_source both_hit) = ''error''
   \<and> Source plain_hit ''severity'' = Some (Integer 3) \<and> Source plain_hit ''level'' = None
   \<and> Severity (normalizeHit sample_time plain_source plain_source plain_hit) = ''''"
proof -
  have w: "Source warn_hit ''severity'' = None \<and> Source warn_hit ''level'' = Some (Str ''warn'')"
    by (simp add: warn_hit_def warn_source_def)
  have b: "Source both_hit ''severity'' = Some (Str ''error'') \<and>
           Source both_hit ''level'' = Some (Str ''warn'')"
    by (simp add: both_hit_def both_source_def)
  have p: "Source plain_hit ''severity'' = Some (Integer 3) \<and> Source plain_hit ''level'' = None"
    by (simp add: plain_hit_def plain_source_def)
  from severity_fallback [of warn_hit sample_time warn_source warn_source] w
  have 1: "Severity (normalizeHit sample_time warn_source warn_source warn_hit) = ''warn''"
    by blast
  from severity_fallback [of both_hit sample_time both_source both_source] b
  have 2: "Severity (normalizeHit sample_time both_source both_source both_hit) = ''error''"
    by blast
  from severity_fallback [of plain_hit sample_time plain_source plain_source] p
  have 3: "Severity (normalizeHit sample_time plain_source plain_source plain_hit) = ''''"
    by simp
  from w b p 1 2 3 show ?thesis by blast
qed

section \<open>Labels and fields of a normalized entry\<close>

text \<open>
  C5. For every hit, whatever sequences the two range loops follow: every key of
  \<open>labels\<close> is a key of \<open>fields\<close> with the same string as its value; \<open>labels\<close> holds
  exactly the keys of the source that have a string value and are none of
  \<open>@timestamp\<close>, \<open>message\<close>, \<open>severity\<close>, \<open>level\<close>, \<open>service\<close>; and none of these
  five names is a key of \<open>labels\<close> or of \<open>fields\<close>.
\<close>

theorem field_partition:
  assumes "range_order (Source hit) kvs1" and "range_order (Source hit) kvs2"
  shows "(\<forall>k s. Labels (normalizeHit T kvs1 kvs2 hit) k = Some s
            \<longrightarrow> Fields (normalizeHit T kvs1 kvs2 hit) k = Some (Str s))
       \<and> (\<forall>k s. Labels (normalizeHit T kvs1 kvs2 hit) k = Some s
            \<longleftrightarrow> Source hit k = Some (Str s) \<and>
                k \<notin> {''@timestamp'', ''message'', ''severity'', ''level'', ''service''})
       \<and> (\<forall>k\<in>{''@timestamp'', ''message'', ''severity'', ''level'', ''service''}.
             Labels (normalizeHit T kvs1 kvs2 hit) k = None \<and>
             Fields (normalizeHit T kvs1 kvs2 hit) k = None)"
  by (auto simp: Labels_value [OF assms(1)] Fields_value [OF assms(2)] as_string_Some skipped_def)

theorem field_partition_witness:
  "range_order (Source both_hit) both_source
   \<and> Labels (normalizeHit sample_time both_source both_source both_hit) ''environment'' =
       Some ''production''
   \<and> Fields (normalizeHit sample_time both_source both_source both_hit) ''environment'' =
       Some (Str ''production'')
   \<and> Labels (normalizeHit sample_time both_source both_source both_hit) ''status'' = None
   \<and> Labels (normalizeHit sample_time both_source both_source both_hit) ''severity'' = None
   \<and> Fields (normalizeHit sample_time both_source both_source both_hit) ''severity'' = None"
proof -
  have r: "range_order (Source both_hit) both_source"
    by (simp add: range_order_def both_hit_def both_source_def)
  have e: "Source both_hit ''environment'' = Some (Str ''production'')"
   and s: "Source both_hit ''status'' = Some (Integer 500)"
    by (simp_all add: both_hit_def both_source_def)
  note fp = field_partition [OF r r, of sample_time]
  from fp e have 1: "Labels (normalizeHit sample_time both_source both_source both_hit)
                       ''environment'' = Some ''production''"
    by simp
  with fp have 2: "Fields (normalizeHit sample_time both_source both_source both_hit)
                       ''environment'' = Some (Str ''production'')"
    by blast
  from fp s have 3: "Labels (normalizeHit sample_time both_source both_source both_hit)
                       ''status'' = None"
    by (cases "Labels (normalizeHit sample_time both_source both_source both_hit) ''status''")
       auto
  from fp have 4: "Labels (normalizeHit sample_time both_source both_source both_hit)
                       ''severity'' = None"
    and 5: "Fields (normalizeHit sample_time both_source both_source both_hit)
                       ''severity'' = None"
    by simp_all
  from r 1 2 3 4 5 show ?thesis by blast
qed

section \<open>Source keys kept in the fields of a normalized entry\<close>

text \<open>
  C6, as stated: every key of the source other than the four names \<open>@timestamp\<close>,
  \<open>message\<close>, \<open>severity\<close> and \<open>service\<close> is a key of \<open>fields\<close> with its original value.
  The key \<open>level\<close> refutes it: it is none of the four, the sample hit has it, and the
  normalized entry has it neither in \<open>fields\<close> nor in \<open>labels\<close>, while the severity
  comes from the \<open>severity\<close> field.
\<close>

theorem fields_drop_level_counterexample:
  "range_order (Source both_hit) both_source
   \<and> ''level'' \<notin> {''@timestamp'', ''message'', ''severity'', ''service''}
   \<and> Source both_hit ''level'' = Some (Str ''warn'')
   \<and> Fields (normalizeHit sample_time both_source both_source both_hit) ''level'' = None
   \<and> Labels (normalizeHit sample_time both_source both_source both_hit) ''level'' = None
   \<and> Severity (normalizeHit sample_time both_source both_source both_hit) = ''error''"
  by (simp add: both_source_order Fields_value Labels_value Severity_normalizeHit skipped_def)
     (simp add: both_hit_def both_source_def)

text \<open>
  C6, amended: every key of the source other than the five names \<open>@timestamp\<close>,
  \<open>message\<close>, \<open>severity\<close>, \<open>level\<close> and \<open>service\<close> is a key of \<open>fields\<close> with its
  original value, whether a string or not, and \<open>fields\<close> has no other key; the five names
  are never keys of \<open>fields\<close>.
\<close>

theorem fields_keep_unskipped_keys:
  assumes "range_order (Source hit) kvs2"
  shows "(\<forall>k. k \<notin> {''@timestamp'', ''message'', ''severity'', ''level'', ''service''}
            \<longrightarrow> Fields (normalizeHit T kvs1 kvs2 hit) k = Source hit k)
       \<and> (\<forall>k\<in>{''@timestamp'', ''message'', ''severity'', ''level'', ''service''}.
             Fields (normalizeHit T kvs1 kvs2 hit) k = None)"
  by (auto simp: Fields_value [OF assms] skipped_def)

theorem fields_keep_unskipped_keys_witness:
  "range_order (Source both_hit) both_source
   \<and> ''status'' \<notin> {''@timestamp'', ''message'', ''severity'', ''level'', ''service''}
   \<and> Fields (normalizeHit sample_time both_source both_source both_hit) ''status'' =
       Some (Integer 500)
   \<and> Fields (normalizeHit sample_time both_source both_source both_hit) ''environment'' =
       Some (Str ''production'')
   \<and> Fields (normalizeHit sample_time both_source both_source both_hit) ''message'' = None"
proof -
  have r: "range_order (Source both_hit) both_source"
    by (simp add: range_order_def both_hit_def both_source_def)
  from fields_keep_unskipped_keys [OF r, of sample_time both_source] r show ?thesis
    by (simp add: both_hit_def both_source_def)
qed

section \<open>Result size\<close>

text \<open>
  C7. The \<open>size\<close> field of the built query document is the query's limit when the
  limit is positive and the fixed default 1000 when it is zero or negative.
\<close>

theorem buildQuery_size:
  "member (buildQuery T kvs query) ''size'' =
     Some (Integer (if Limit query > 0 then Limit query else 1000))"
  by (simp add: buildQuery_def Let_def)

text \<open>A query with limit 3 asks the backend for 3 documents.\<close>

theorem buildQuery_size_witness:
  "member (buildQuery sample_time [] limit3_query) ''size'' = Some (Integer 3)"
  using buildQuery_size [of sample_time "[]" limit3_query]
  by (simp add: limit3_query_def)

section \<open>Responses of the transport loop\<close>

text \<open>
  C8. At the end of the input the loop stops and has written nothing more. At a record
  that fails to decode it writes exactly one error response, carrying the decoder's
  message, and stops without reading further. A decoded request makes the loop write
  exactly one response before it reads the next record. So a run over requests alone
  writes one response for each, and a run that meets a malformed record after some
  requests writes one response for each request and one for the malformed record.
\<close>

theorem transport_loop_responses:
  "main E [] st = st
   \<and> main E (Malformed err # rest) st =
       st\<lparr>stdout := stdout st @ [\<lparr>Result = None, Error = err\<rparr>]\<rparr>
   \<and> (\<exists>r. stdout (serve E req st) = stdout st @ [r])
   \<and> main E (Request req # rest) st = main E rest (serve E req st)
   \<and> length (stdout (main E (map Request reqs) st)) = length (stdout st) + length reqs
   \<and> length (stdout (main E (map Request reqs @ Malformed err # rest) st)) =
       length (stdout st) + length reqs + 1"
proof -
  have "length (stdout (main E (map Request reqs @ Malformed err # rest) st)) =
       length (stdout st) + length reqs + 1"
    by (simp add: main_requests_then writeErr_simps main_requests_length)
  then show ?thesis
    using serve_one [of E req st]
    by (simp add: writeErr_def main_requests_length)
qed

text \<open>
  One request and the end of the input: one response. A malformed record first: one
  error response, and the request behind it is not served.
\<close>

theorem transport_loop_responses_witness:
  "stdout (main sample_env [Request query_request] fresh) = [\<lparr>Result = Some [], Error = ''''\<rparr>]
   \<and> stdout (main sample_env [Malformed ''invalid character'', Request query_request] fresh) =
       [\<lparr>Result = None, Error = ''invalid character''\<rparr>]
   \<and> length (stdout (main sample_env
        (map Request [bogus_request, query_request] @
         Malformed ''invalid character'' # [Request query_request]) fresh)) = 3"
proof -
  note t1 = transport_loop_responses [where E = sample_env and st = fresh
              and err = "''invalid character''" and rest = "[Request query_request]"
              and req = query_request and reqs = "[bogus_request, query_request]"]
  note t2 = transport_loop_responses [where E = sample_env and st = fresh
              and err = "''invalid character''" and rest = "[]"
              and req = query_request and reqs = "[]"]
  from t2 have 1: "stdout (main sample_env [Request query_request] fresh) =
                        [\<lparr>Result = Some [], Error = ''''\<rparr>]"
    by (simp add: serve_query_fresh)
  from t1 have 2: "stdout (main sample_env [Malformed ''invalid character'', Request query_request]
                        fresh) = [\<lparr>Result = None, Error = ''invalid character''\<rparr>]"
    by (simp add: fresh_def)
  from t1 have 3: "length (stdout (main sample_env
        (map Request [bogus_request, query_request] @
         Malformed ''invalid character'' # [Request query_request]) fresh)) = 3"
    by (simp add: fresh_def)
  from 1 2 3 show ?thesis by blast
qed

section \<open>Determinism of the query builder\<close>

text \<open>
  C9, as stated: two calls of \<open>buildQuery\<close> on the same query return the same
  document, also when the metadata has two or more entries. The two visiting sequences
  of a two-entry metadata map refute it.
\<close>

theorem buildQuery_metadata_order_counterexample:
  "range_order (LogQuery.Metadata full_query) region_shard
   \<and> range_order (LogQuery.Metadata full_query) shard_region
   \<and> buildQuery sample_time region_shard full_query \<noteq> buildQuery sample_time shard_region full_query"
proof -
  have "must_of (buildQuery sample_time region_shard full_query) \<noteq>
        must_of (buildQuery sample_time shard_region full_query)"
    by (simp add: must_of_buildQuery spec_clauses_def spec_metadata_def spec_term_def
          region_shard_def shard_region_def)
  then have "buildQuery sample_time region_shard full_query \<noteq>
             buildQuery sample_time shard_region full_query"
    by auto
  with region_shard_order shard_region_order show ?thesis by simp
qed

text \<open>
  C9, amended: two calls of \<open>buildQuery\<close> on the same query return documents with the
  same sort and size and with the same clauses before the metadata clauses, in the same
  order; the metadata clauses that follow are the same clauses with the same
  multiplicities, in the order in which each call's range loop visits the metadata. When
  the metadata has at most one entry the two documents are equal.
\<close>

theorem buildQuery_same_up_to_metadata_order:
  assumes "range_order (LogQuery.Metadata query) kvs1"
      and "range_order (LogQuery.Metadata query) kvs2"
  shows "must_of (buildQuery T kvs1 query) = spec_fixed T query @ spec_metadata kvs1
       \<and> must_of (buildQuery T kvs2 query) = spec_fixed T query @ spec_metadata kvs2
       \<and> mset (spec_metadata kvs1) = mset (spec_metadata kvs2)
       \<and> mset (must_of (buildQuery T kvs1 query)) = mset (must_of (buildQuery T kvs2 query))
       \<and> member (buildQuery T kvs1 query) ''sort'' = member (buildQuery T kvs2 query) ''sort''
       \<and> member (buildQuery T kvs1 query) ''size'' = member (buildQuery T kvs2 query) ''size''
       \<and> (card (dom (LogQuery.Metadata query)) \<le> 1
            \<longrightarrow> buildQuery T kvs1 query = buildQuery T kvs2 query)"
proof -
  have m1: "must_of (buildQuery T kvs1 query) = spec_fixed T query @ spec_metadata kvs1"
   and m2: "must_of (buildQuery T kvs2 query) = spec_fixed T query @ spec_metadata kvs2"
    by (simp_all add: must_of_buildQuery spec_clauses_def)
  have "mset kvs1 = mset kvs2"
    using assms by (rule range_order_mset)
  then have ms: "mset (spec_metadata kvs1) = mset (spec_metadata kvs2)"
    by (simp add: spec_metadata_def)
  have mm: "mset (must_of (buildQuery T kvs1 query)) = mset (must_of (buildQuery T kvs2 query))"
    using ms by (simp add: m1 m2)
  have so: "member (buildQuery T kvs1 query) ''sort'' = member (buildQuery T kvs2 query) ''sort''"
   and sz: "member (buildQuery T kvs1 query) ''size'' = member (buildQuery T kvs2 query) ''size''"
    by (simp_all add: buildQuery_document)
  have sm: "card (dom (LogQuery.Metadata query)) \<le> 1
            \<longrightarrow> buildQuery T kvs1 query = buildQuery T kvs2 query"
    using range_order_small [OF assms] by auto
  from m1 m2 ms mm so sz sm show ?thesis by blast
qed

theorem buildQuery_same_up_to_metadata_order_witness:
  "range_order (LogQuery.Metadata full_query) region_shard
   \<and> range_order (LogQuery.Metadata full_query) shard_region
   \<and> mset (must_of (buildQuery sample_time region_shard full_query)) =
     mset (must_of (buildQuery sample_time shard_region full_query))
   \<and> take 10 (must_of (buildQuery sample_time region_shard full_query)) =
     take 10 (must_of (buildQuery sample_time shard_region full_query))
   \<and> range_order (LogQuery.Metadata limit3_query) []
   \<and> card (dom (LogQuery.Metadata limit3_query)) \<le> 1"
proof -
  have r1: "range_order (LogQuery.Metadata full_query) region_shard"
    by (simp add: range_order_def full_query_def region_shard_def)
  have r2: "range_order (LogQuery.Metadata full_query) shard_region"
    by (auto simp: range_order_def full_query_def region_shard_def shard_region_def fun_eq_iff)
  have r3: "range_order (LogQuery.Metadata limit3_query) []"
    by (simp add: range_order_def limit3_query_def)
  have c3: "card (dom (LogQuery.Metadata limit3_query)) \<le> 1"
    by (simp add: limit3_query_def)
  have len: "length (spec_fixed sample_time full_query) = 10"
    by (simp add: spec_fixed_def spec_time_range_def spec_free_text_def spec_severity_def
          spec_filters_def recognised_def spec_scope_def full_query_def full_expression_def
          sample_time_def)
  from buildQuery_same_up_to_metadata_order [OF r1 r2, of sample_time]
       buildQuery_same_up_to_metadata_order [OF r3 r3, of sample_time]
       r1 r2 r3 c3 len
  show ?thesis by simp
qed

section \<open>The memoized provider\<close>

text \<open>
  C10. Once the package variable holds a provider, \<open>ensureProvider\<close> returns it and
  changes nothing, whatever configuration it is given; serving a request then gives
  the same result whatever the request's configuration is, the variable keeps the same
  provider to the end of the run, and a run over requests is the same run when every
  request's configuration is replaced by another. While the variable is unset, a
  request whose configuration makes \<open>New\<close> fail gets the error of \<open>New\<close> as its
  response, whatever its method name, and leaves the variable unset; a request whose
  configuration makes \<open>New\<close> succeed sets the variable to the new provider.
\<close>

theorem provider_memoized:
  "(\<forall>p. provider st = Some p \<longrightarrow> ensureProvider E config st = (Inr p, st))
   \<and> (\<forall>p. provider st = Some p \<longrightarrow>
          serve E (req\<lparr>Config := config\<rparr>) st = serve E req st \<and>
          provider (serve E req st) = Some p)
   \<and> (\<forall>p. provider st = Some p \<longrightarrow> provider (main E input st) = Some p)
   \<and> (\<forall>p. provider st = Some p \<longrightarrow>
          main E (map (\<lambda>r. Request (r\<lparr>Config := alt r\<rparr>)) reqs) st = main E (map Request reqs) st)
   \<and> (\<forall>err w. provider st = None \<and> New E (Config req) (world st) = (Inl err, w) \<longrightarrow>
          serve E req st =
            st\<lparr>stdout := stdout st @ [\<lparr>Result = None, Error = errorString err\<rparr>], world := w\<rparr> \<and>
          provider (serve E req st) = None)
   \<and> (\<forall>prov w. provider st = None \<and> New E (Config req) (world st) = (Inr prov, w) \<longrightarrow>
          provider (serve E req st) = Some prov)"
  by (auto simp: ensureProvider_memo serve_memo_config serve_memo_provider main_memo_provider
        main_memo_config serve_construction_fails serve_construction_succeeds)

text \<open>
  A run from the unset variable: an unknown method with an empty configuration gets the
  configuration error; a valid request sets the variable. With the variable set, the
  empty configuration is not looked at, and the unknown method gets its own error.
\<close>

theorem provider_memoized_witness:
  "provider fresh = None
   \<and> New sample_env (Config bogus_request) (world fresh) = (Inl ConfigError, [])
   \<and> stdout (serve sample_env bogus_request fresh) =
       [\<lparr>Result = None, Error = ''either 'addresses' or 'cloudID' must be provided''\<rparr>]
   \<and> provider (serve sample_env bogus_request fresh) = None
   \<and> New sample_env (Config query_request) (world fresh) = (Inr sample_provider, [])
   \<and> provider (serve sample_env query_request fresh) = Some sample_provider
   \<and> provider ready = Some sample_provider
   \<and> ensureProvider sample_env Map.empty ready = (Inr sample_provider, ready)
   \<and> serve sample_env (query_request\<lparr>Config := Map.empty\<rparr>) ready =
       serve sample_env query_request ready
   \<and> stdout (serve sample_env (query_request\<lparr>Config := Map.empty\<rparr>) ready) =
       [\<lparr>Result = Some [], Error = ''''\<rparr>]
   \<and> stdout (serve sample_env bogus_request ready) =
       [\<lparr>Result = None, Error = ''unknown method: log.tail''\<rparr>]"
proof -
  have f: "provider fresh = None" and wf: "world fresh = []" and sf: "stdout fresh = []"
    by (simp_all add: fresh_def)
  have r: "provider ready = Some sample_provider"
    by (simp add: ready_def)
  have nb: "New sample_env (Config bogus_request) (world fresh) = (Inl ConfigError, [])"
    by (simp add: bogus_request_def wf New_empty_config)
  have nq: "New sample_env (Config query_request) (world fresh) = (Inr sample_provider, [])"
    by (simp add: query_request_def wf New_valid_config)
  note m1 = provider_memoized [where st = fresh and E = sample_env and config = Map.empty
              and req = bogus_request]
  note m2 = provider_memoized [where st = fresh and E = sample_env and config = Map.empty
              and req = query_request]
  note m3 = provider_memoized [where st = ready and E = sample_env and config = Map.empty
              and req = query_request]
  from m1 f nb have 1: "serve sample_env bogus_request fresh =
        fresh\<lparr>stdout := stdout fresh @
                 [\<lparr>Result = None, Error = errorString ConfigError\<rparr>], world := []\<rparr>
        \<and> provider (serve sample_env bogus_request fresh) = None"
    by blast
  from m2 f nq have 2: "provider (serve sample_env query_request fresh) = Some sample_provider"
    by blast
  from m3 r have 3: "ensureProvider sample_env Map.empty ready = (Inr sample_provider, ready)"
    and 4: "serve sample_env (query_request\<lparr>Config := Map.empty\<rparr>) ready =
            serve sample_env query_request ready"
    by blast+
  from 1 have 5: "stdout (serve sample_env bogus_request fresh) =
       [\<lparr>Result = None, Error = ''either 'addresses' or 'cloudID' must be provided''\<rparr>]"
    by (simp add: sf)
  from 4 have 6: "stdout (serve sample_env (query_request\<lparr>Config := Map.empty\<rparr>) ready) =
       [\<lparr>Result = Some [], Error = ''''\<rparr>]"
    by (simp add: serve_query_ready)
  have 7: "stdout (serve sample_env bogus_request ready) =
       [\<lparr>Result = None, Error = ''unknown method: log.tail''\<rparr>]"
    by (simp add: serve_bogus_ready)
  from f nb 5 1 nq 2 r 3 4 6 7 show ?thesis by blast
qed

end
